theory Spec2Isabelle
  imports Complex_Main
begin

section \<open>Data model\<close>

text \<open>
  Python floats and numpy float64 values are idealised as \<^typ>\<open>real\<close>: rounding, NaN
  and the infinities are outside the model, except where a division by an observed
  zero is made explicit (see \<open>cell\<close> below).  Exceptions are values of \<open>py_error\<close>.

  The repository holds two implementations of the model.  The definitions translated
  from the \<open>core\<close> modules (keyed by an explicit window of years) keep the names of the
  source; those translated from the \<open>modelo_suicidio\<close> package (keyed by the whole
  series) carry the suffix \<open>_suicidio\<close> or \<open>_pkg\<close> where the two share a name.
\<close>

datatype py_error =
    ValueError string
  | NoDataForYear int
  | IndexError
  | IntegrationFailed string
  | LibraryError string

text \<open>
  \<open>NoDataForYear a\<close> is the \<open>ValueError\<close> raised by the window-keyed
  \<open>condiciones_iniciales\<close> for the year \<open>a\<close>; \<open>IntegrationFailed msg\<close> is the
  \<open>RuntimeError\<close> raised by \<open>ModeloSuicidio\<close> with the solver's message;
  \<open>LibraryError\<close> is any exception raised inside scipy.
\<close>

record ModeloParametros =
  delta :: real
  delta_s :: real
  delta_n :: real
  m :: real
  phi :: real
  psi :: real
  theta :: real
  rho :: real
  beta :: real
  gamma :: real

type_synonym state = "real \<times> real \<times> real"

record obs_row =
  anio :: int
  Poblacion_10ymas_P :: real
  T_obs :: real

type_synonym dataframe = "obs_row list"

section \<open>Linear interpolation of the exogenous series\<close>

text \<open>
  \<open>np.interp(x, xp, fp)\<close> for a scalar \<open>x\<close>: an empty \<open>xp\<close> and arrays of different
  lengths raise \<open>ValueError\<close>; left of the first sample the first value is held, right
  of the last sample the last value; in between, the segment \<open>xp[j] \<le> x < xp[j+1]\<close> is
  interpolated, and a sample point returns its value directly.  As in numpy, the test
  against the last sample comes first and the test against the first sample second.
  numpy then locates the segment by binary search and documents the result only for
  increasing \<open>xp\<close>; the scan below is the same function on such input, and the
  observation series of the specification has strictly increasing years.
\<close>

fun interp_scan :: "real \<Rightarrow> (real \<times> real) list \<Rightarrow> real" where
  "interp_scan x [] = 0"
| "interp_scan x [(x0, f0)] = f0"
| "interp_scan x ((x0, f0) # (x1, f1) # rest) =
     (if x < x1 then
        (if x0 = x then f0 else ((f1 - f0) / (x1 - x0)) * (x - x0) + f0)
      else interp_scan x ((x1, f1) # rest))"

definition np_interp :: "real \<Rightarrow> real list \<Rightarrow> real list \<Rightarrow> py_error + real" where
  "np_interp x xp fp =
     (if xp = [] then Inl (ValueError ''array of sample points is empty'')
      else if length fp \<noteq> length xp then
        Inl (ValueError ''fp and xp are not of the same length.'')
      else if last xp < x then Inr (last fp)
      else if x < hd xp then Inr (hd fp)
      else Inr (interp_scan x (zip xp fp)))"

section \<open>The window-keyed model: core/nonlinear\_model.py\<close>

record ModeloNoLineal =
  params :: ModeloParametros
  anios :: "real list"
  P :: "real list"

definition ModeloNoLineal_init ::
  "ModeloParametros \<Rightarrow> int list \<Rightarrow> real list \<Rightarrow> ModeloNoLineal" where
  "ModeloNoLineal_init p anios_data P_data =
     \<lparr> params = p, anios = map real_of_int anios_data, P = P_data \<rparr>"

definition P_t :: "ModeloNoLineal \<Rightarrow> real \<Rightarrow> py_error + real" where
  "P_t self t = np_interp t (anios self) (P self)"

definition rhs :: "ModeloNoLineal \<Rightarrow> real \<Rightarrow> state \<Rightarrow> py_error + state" where
  "rhs self t y =
     (case y of (S, T, R) \<Rightarrow>
      (let delta_n' = delta_n (params self);
           delta_s' = delta_s (params self);
           theta' = theta (params self);
           rho' = rho (params self);
           beta' = beta (params self);
           gamma' = gamma (params self)
       in case P_t self t of
            Inl e \<Rightarrow> Inl e
          | Inr P_val0 \<Rightarrow>
             (let P_val = (if P_val0 < 1 / 10 ^ 9 then 1 else P_val0);
                  term_influencia = beta' * delta_s' * (T / P_val) * S;
                  term_otras = gamma' * (1 - beta') * delta_s' * S;
                  dS = (theta' * P_val) + ((1 - delta_n') * R) - term_otras - term_influencia
                       - (delta_s' * S) - (delta_n' * S);
                  dT = term_otras + term_influencia - (rho' * T) - (delta_s' * T)
                       - (delta_n' * T);
                  dR = (rho' * T) - R
              in Inr (dS, dT, dR))))"

text \<open>
  Lines 40 to 44 of \<open>ModeloNoLineal.rhs\<close> on their own: the value of \<open>P_val\<close> after
  the guard, which is the value that divides \<open>T\<close>.
\<close>

definition P_val_guarded :: "ModeloNoLineal \<Rightarrow> real \<Rightarrow> py_error + real" where
  "P_val_guarded self t =
     (case P_t self t of
        Inl e \<Rightarrow> Inl e
      | Inr P_val \<Rightarrow> Inr (if P_val < 1 / 10 ^ 9 then 1 else P_val))"

section \<open>The series-keyed model: modelo\_suicidio/model.py\<close>

record ModeloSuicidio =
  param :: ModeloParametros
  series_P :: "real list"
  series_anio :: "real list"

text \<open>
  The constructor rejects series of different lengths and sorts both by year with
  \<open>np.argsort\<close>.  On distinct years, which the observation series of the specification
  has, every sorting order is the one below; numpy's default sort is not stable, so on
  repeated years the order of their populations is numpy's and may differ from the stable
  order used here.  No result below reads that order.
\<close>

definition ModeloSuicidio_init ::
  "ModeloParametros \<Rightarrow> real list \<Rightarrow> int list \<Rightarrow> py_error + ModeloSuicidio" where
  "ModeloSuicidio_init parametros sP sanio =
     (if length sP \<noteq> length sanio then
        Inl (ValueError ''series_P y series_anio deben tener la misma longitud'')
      else
        (let ordenados = sort_key fst (zip (map real_of_int sanio) sP)
         in Inr \<lparr> param = parametros, series_P = map snd ordenados,
                  series_anio = map fst ordenados \<rparr>))"

definition P_t_suicidio :: "ModeloSuicidio \<Rightarrow> real \<Rightarrow> py_error + real" where
  "P_t_suicidio self t = np_interp t (series_anio self) (series_P self)"

definition rhs_suicidio :: "ModeloSuicidio \<Rightarrow> real \<Rightarrow> state \<Rightarrow> py_error + state" where
  "rhs_suicidio self t y =
     (case y of (S, T, R) \<Rightarrow>
      (case P_t_suicidio self t of
         Inl e \<Rightarrow> Inl e
       | Inr P0 \<Rightarrow>
          (let Pv = (if P0 < 1 then 1 else P0);
               theta' = theta (param self);
               rho' = rho (param self);
               beta' = beta (param self);
               gamma' = gamma (param self);
               delta_s' = delta_s (param self);
               delta_n' = delta_n (param self);
               entrada_S_desde_P = theta' * Pv;
               regreso_R_a_S = (1 - delta_n') * R;
               salida_S_influencia = gamma' * (1 - beta') * delta_s' * S;
               salida_S_contagio = beta' * delta_s' * (T / Pv) * S;
               mortalidad_S_suicidio = delta_s' * S;
               mortalidad_S_natural = delta_n' * S;
               dS_dt = entrada_S_desde_P + regreso_R_a_S
                       - salida_S_influencia - salida_S_contagio
                       - mortalidad_S_suicidio - mortalidad_S_natural;
               entrada_T_desde_S = salida_S_influencia + salida_S_contagio;
               salida_T_recuperacion = rho' * T;
               mortalidad_T_suicidio = delta_s' * T;
               mortalidad_T_natural = delta_n' * T;
               dT_dt = entrada_T_desde_S - salida_T_recuperacion
                       - mortalidad_T_suicidio - mortalidad_T_natural;
               entrada_R_desde_T = salida_T_recuperacion;
               salida_R = R;
               dR_dt = entrada_R_desde_T - salida_R
           in Inr (dS_dt, dT_dt, dR_dt))))"

text \<open>
  Lines 89 to 93 of \<open>ModeloSuicidio.rhs\<close> on their own: the value of \<open>P\<close> after the
  guard, which is the value that divides \<open>T\<close>.
\<close>

definition P_guarded_suicidio :: "ModeloSuicidio \<Rightarrow> real \<Rightarrow> py_error + real" where
  "P_guarded_suicidio self t =
     (case P_t_suicidio self t of
        Inl e \<Rightarrow> Inl e
      | Inr Pv \<Rightarrow> Inr (if Pv < 1 then 1 else Pv))"

section \<open>Initial conditions\<close>

text \<open>
  core/analysis.py: \<open>condiciones_iniciales(df, params, anio_ini)\<close> selects the rows of the
  year \<open>anio_ini\<close>, raises \<open>ValueError\<close> when there is none and reads the population of
  the first of them.
\<close>

definition condiciones_iniciales ::
  "dataframe \<Rightarrow> ModeloParametros \<Rightarrow> int \<Rightarrow> py_error + state" where
  "condiciones_iniciales df p anio_ini =
     (case filter (\<lambda>r. anio r = anio_ini) df of
        [] \<Rightarrow> Inl (NoDataForYear anio_ini)
      | row # _ \<Rightarrow>
          (let P0 = Poblacion_10ymas_P row;
               T0 = m p * P0;
               R0 = phi p * T0;
               S0 = P0 - T0 - R0
           in Inr (S0, T0, R0)))"

text \<open>
  analysis.py: \<open>condiciones_iniciales(df, params)\<close> reads the first row
  (\<open>.iloc[0]\<close>, an \<open>IndexError\<close> on an empty table), replaces each negative component
  by zero and prints one warning for each.  The warnings are returned beside the state,
  in the order they are printed; the informative lines printed afterwards are omitted.
\<close>

datatype advertencia = S0_negativo real | T0_negativo real | R0_negativo real

definition condiciones_iniciales_pkg ::
  "dataframe \<Rightarrow> ModeloParametros \<Rightarrow> py_error + (state \<times> advertencia list)" where
  "condiciones_iniciales_pkg df p =
     (case df of
        [] \<Rightarrow> Inl IndexError
      | row # _ \<Rightarrow>
          (let P0 = Poblacion_10ymas_P row;
               T0 = m p * P0;
               R0 = phi p * T0;
               S0 = P0 - T0 - R0;
               (S0c, w1) = (if S0 < 0 then (0, [S0_negativo S0]) else (S0, []));
               (T0c, w2) = (if T0 < 0 then (0, [T0_negativo T0]) else (T0, []));
               (R0c, w3) = (if R0 < 0 then (0, [R0_negativo R0]) else (R0, []))
           in Inr ((S0c, T0c, R0c), w1 @ w2 @ w3)))"

section \<open>The ODE solver and the two simulators\<close>

text \<open>
  \<open>scipy.integrate.solve_ivp\<close> is a library function: the simulators take it as an
  argument.  Its result object carries the evaluation times \<open>t\<close>, the three rows of
  \<open>y\<close>, the dense output \<open>sol\<close>, and \<open>status\<close>, \<open>success\<close>, \<open>message\<close> (the
  fields are prefixed with \<open>sol_\<close>, as \<open>t\<close> and \<open>y\<close> are needed as variables).  The
  arguments are \<open>fun\<close>, \<open>t_span\<close>, \<open>y0\<close>, \<open>method\<close>, \<open>t_eval\<close> and
  \<open>dense_output\<close>.
\<close>

record ode_result =
  sol_t :: "real list"
  sol_y :: "real list \<times> real list \<times> real list"
  sol_sol :: "real \<Rightarrow> state"
  sol_status :: int
  sol_success :: bool
  sol_message :: string

type_synonym ivp_solver =
  "(real \<Rightarrow> state \<Rightarrow> py_error + state) \<Rightarrow> real \<times> real \<Rightarrow> state \<Rightarrow> string
     \<Rightarrow> real list option \<Rightarrow> bool \<Rightarrow> py_error + ode_result"

definition np_linspace :: "real \<Rightarrow> real \<Rightarrow> int \<Rightarrow> py_error + real list" where
  "np_linspace a b num =
     (if num < 0 then Inl (ValueError ''Number of samples must be non-negative.'')
      else if num = 1 then Inr [a]
      else Inr (map (\<lambda>i. a + real i * ((b - a) / real (nat num - 1))) [0..<nat num]))"

text \<open>\<open>sol.y.T\<close>: the rows of \<open>y\<close> read as one state for each time.\<close>

definition transpose_y :: "real list \<times> real list \<times> real list \<Rightarrow> state list" where
  "transpose_y y = (case y of (ys, yt, yr) \<Rightarrow> zip ys (zip yt yr))"

text \<open>
  \<open>ModeloNoLineal.simular\<close>: a solver that reports non-success makes it print a warning
  (returned here beside the result); the arrays of the solver are returned in both cases.
\<close>

definition simular ::
  "ivp_solver \<Rightarrow> ModeloNoLineal \<Rightarrow> real \<Rightarrow> real \<Rightarrow> state \<Rightarrow> int
     \<Rightarrow> py_error + ((real list \<times> state list) \<times> string list)" where
  "simular solve_ivp self t0 tf x0 num_puntos =
     (case np_linspace t0 tf num_puntos of
        Inl e \<Rightarrow> Inl e
      | Inr t_eval \<Rightarrow>
          (case solve_ivp (rhs self) (t0, tf) x0 ''RK45'' (Some t_eval) False of
             Inl e \<Rightarrow> Inl e
           | Inr sol \<Rightarrow>
               Inr ((sol_t sol, transpose_y (sol_y sol)),
                    (if \<not> sol_success sol
                     then [''Advertencia en simulacion: '' @ sol_message sol] else []))))"

text \<open>\<open>ModeloSuicidio.simular\<close> and \<open>ModeloSuicidio.evaluar_en_puntos\<close>.\<close>

definition simular_suicidio ::
  "ivp_solver \<Rightarrow> ModeloSuicidio \<Rightarrow> real \<Rightarrow> real \<Rightarrow> state \<Rightarrow> int \<Rightarrow> string
     \<Rightarrow> py_error + (real list \<times> real list \<times> real list \<times> real list)" where
  "simular_suicidio solve_ivp self t_inicial t_final x0 num_pasos metodo =
     (case np_linspace t_inicial t_final num_pasos of
        Inl e \<Rightarrow> Inl e
      | Inr t_eval \<Rightarrow>
          (case solve_ivp (rhs_suicidio self) (t_inicial, t_final) x0 metodo (Some t_eval) True of
             Inl e \<Rightarrow> Inl e
           | Inr sol \<Rightarrow>
               (if \<not> sol_success sol then Inl (IntegrationFailed (sol_message sol))
                else (case sol_y sol of (S, T, R) \<Rightarrow> Inr (sol_t sol, S, T, R)))))"

definition evaluar_en_puntos ::
  "ivp_solver \<Rightarrow> ModeloSuicidio \<Rightarrow> real \<Rightarrow> real \<Rightarrow> state \<Rightarrow> real list
     \<Rightarrow> py_error + (real list \<times> real list \<times> real list)" where
  "evaluar_en_puntos solve_ivp self t_inicial t_final x0 t_puntos =
     (case solve_ivp (rhs_suicidio self) (t_inicial, t_final) x0 ''RK45'' None True of
        Inl e \<Rightarrow> Inl e
      | Inr sol \<Rightarrow>
          (if \<not> sol_success sol then Inl (IntegrationFailed (sol_message sol))
           else
             (let S_puntos = map (\<lambda>tp. fst (sol_sol sol tp)) t_puntos;
                  T_puntos = map (\<lambda>tp. fst (snd (sol_sol sol tp))) t_puntos;
                  R_puntos = map (\<lambda>tp. snd (snd (sol_sol sol tp))) t_puntos
              in Inr (S_puntos, T_puntos, R_puntos))))"

section \<open>Desk check (prueba de escritorio)\<close>






subsection \<open>core/analysis.py\<close>







subsection \<open>analysis.py\<close>




section \<open>Calibration\<close>

text \<open>
  \<open>scipy.optimize.least_squares\<close> is a library function: the calibrators take it as an
  argument.  It receives the objective, the starting point, the bounds (an upper bound
  \<open>None\<close> is \<open>np.inf\<close>) and its options, and returns an \<open>OptimizeResult\<close> or raises.
\<close>

type_synonym vec4 = "real \<times> real \<times> real \<times> real"

record opt_result =
  res_x :: vec4
  res_cost :: real
  res_message :: string
  res_success :: bool
  res_nfev :: nat

record ls_options =
  ls_method :: string
  ls_verbose :: int
  ls_max_nfev :: "nat option"
  ls_ftol :: real
  ls_xtol :: real
  ls_gtol :: real

type_synonym optimizer =
  "(vec4 \<Rightarrow> py_error + real list) \<Rightarrow> vec4 \<Rightarrow> real list \<times> real option list \<Rightarrow> ls_options
     \<Rightarrow> py_error + opt_result"

subsection \<open>core/calibration.py\<close>

text \<open>
  The objective \<open>residuals\<close> is a closure over \<open>df\<close>, \<open>params_base\<close> and the window.
  Each of its \<open>except\<close> branches and failure tests returns
  \<open>np.full_like(T_obs_vals, 1e6)\<close>, so it has no failing result.
\<close>

definition residuals ::
  "ivp_solver \<Rightarrow> dataframe \<Rightarrow> ModeloParametros \<Rightarrow> int \<Rightarrow> int \<Rightarrow> vec4 \<Rightarrow> real list" where
  "residuals solve_ivp df params_base anio_ini anio_fin p_vec =
     (case p_vec of (theta', rho', beta', gamma') \<Rightarrow>
        (let anios_data = map anio df;
             P_data = map Poblacion_10ymas_P df;
             df_subset = filter (\<lambda>r. anio_ini \<le> anio r \<and> anio r \<le> anio_fin) df;
             t_obs_vals = map (\<lambda>r. real_of_int (anio r)) df_subset;
             T_obs_vals = map T_obs df_subset;
             p = \<lparr> delta = delta params_base, delta_s = delta_s params_base,
                   delta_n = delta_n params_base, m = m params_base,
                   phi = phi params_base, psi = psi params_base,
                   theta = theta', rho = rho', beta = beta', gamma = gamma' \<rparr>;
             modelo = ModeloNoLineal_init p anios_data P_data
         in case condiciones_iniciales df p anio_ini of
              Inl _ \<Rightarrow> replicate (length T_obs_vals) (10 ^ 6)
            | Inr init_cond \<Rightarrow>
                (case solve_ivp (rhs modelo) (real_of_int anio_ini, real_of_int anio_fin)
                        init_cond ''RK45'' (Some t_obs_vals) False of
                   Inl _ \<Rightarrow> replicate (length T_obs_vals) (10 ^ 6)
                 | Inr sol \<Rightarrow>
                     (if sol_status sol \<noteq> 0 \<or> \<not> sol_success sol
                      then replicate (length T_obs_vals) (10 ^ 6)
                      else
                        (let T_model = fst (snd (sol_y sol))
                         in if length T_model \<noteq> length T_obs_vals
                            then replicate (length T_obs_vals) (10 ^ 6)
                            else map2 (-) T_model T_obs_vals)))))"

text \<open>Python's \<open>sub in s\<close> on strings, and the translation of the optimizer's message.\<close>

fun contiene :: "string \<Rightarrow> string \<Rightarrow> bool" where
  "contiene sub [] = (sub = [])"
| "contiene sub (c # cs) = (take (length sub) (c # cs) = sub \<or> contiene sub cs)"

datatype mensaje =
    Convergencia_ftol
  | Convergencia_gtol
  | Convergencia_xtol
  | Maximo_evaluaciones
  | Sin_traducir string

definition msg_traducido :: "string \<Rightarrow> mensaje" where
  "msg_traducido msg =
     (if contiene ''`ftol` termination condition is satisfied'' msg then Convergencia_ftol
      else if contiene ''`gtol` termination condition is satisfied'' msg then Convergencia_gtol
      else if contiene ''`xtol` termination condition is satisfied'' msg then Convergencia_xtol
      else if contiene ''The maximum number of function evaluations is exceeded'' msg
      then Maximo_evaluaciones
      else Sin_traducir msg)"

text \<open>\<open>log_str\<close>, as the values it is formatted from.\<close>

record calib_log =
  log_x0 :: vec4
  log_costo :: real
  log_exito :: bool
  log_mensaje :: mensaje

definition opciones_por_defecto :: ls_options where
  "opciones_por_defecto =
     \<lparr> ls_method = ''trf'', ls_verbose = 0, ls_max_nfev = None,
       ls_ftol = 1 / 10 ^ 8, ls_xtol = 1 / 10 ^ 8, ls_gtol = 1 / 10 ^ 8 \<rparr>"

definition calibrar_parametros ::
  "optimizer \<Rightarrow> ivp_solver \<Rightarrow> dataframe \<Rightarrow> ModeloParametros \<Rightarrow> int \<Rightarrow> int \<Rightarrow> int \<Rightarrow> int
     \<Rightarrow> (int \<Rightarrow> unit) option \<Rightarrow> py_error + (ModeloParametros \<times> real \<times> calib_log)" where
  "calibrar_parametros least_squares solve_ivp df params_base anio_ini anio_fin
       num_theta num_gamma progress_callback =
     (let x0 = (delta_n params_base, 1 / 10, 3 / 10, 10);
          bounds = ([0, 0, 0, 0], [Some 1, Some 1, Some 1, Some 20])
      in case least_squares
                (\<lambda>p_vec. Inr (residuals solve_ivp df params_base anio_ini anio_fin p_vec))
                x0 bounds opciones_por_defecto of
           Inl e \<Rightarrow> Inl e
         | Inr res \<Rightarrow>
             (case res_x res of (b0, b1, b2, b3) \<Rightarrow>
                (let best_cost = res_cost res;
                     log_str = \<lparr> log_x0 = x0, log_costo = best_cost,
                                 log_exito = res_success res,
                                 log_mensaje = msg_traducido (res_message res) \<rparr>;
                     final_params =
                       \<lparr> delta = delta params_base, delta_s = delta_s params_base,
                         delta_n = delta_n params_base, m = m params_base,
                         phi = phi params_base, psi = psi params_base,
                         theta = b0, rho = b1, beta = b2, gamma = b3 \<rparr>
                 in Inr (final_params, best_cost, log_str))))"

subsection \<open>calibration.py\<close>

text \<open>
  The objective \<open>residuos\<close> is a closure over \<open>df\<close>, \<open>params_fijos\<close> (read from
  \<open>params_iniciales\<close>), \<open>t_inicial\<close> and \<open>t_final\<close>.  Only the call of
  \<open>evaluar_en_puntos\<close> is inside its \<open>try\<close>.
\<close>

definition residuos ::
  "ivp_solver \<Rightarrow> dataframe \<Rightarrow> ModeloParametros \<Rightarrow> real \<Rightarrow> real \<Rightarrow> vec4
     \<Rightarrow> py_error + real list" where
  "residuos solve_ivp df params_iniciales t_inicial t_final x =
     (case x of (theta', rho', beta', gamma') \<Rightarrow>
        (let T_obs' = map T_obs df;
             t_puntos = map (\<lambda>r. real_of_int (anio r)) df;
             p = \<lparr> delta = delta params_iniciales, delta_s = delta_s params_iniciales,
                   delta_n = delta_n params_iniciales, m = m params_iniciales,
                   phi = phi params_iniciales, psi = psi params_iniciales,
                   theta = theta', rho = rho', beta = beta', gamma = gamma' \<rparr>
         in case condiciones_iniciales_pkg df p of
              Inl e \<Rightarrow> Inl e
            | Inr (x0_cond, _) \<Rightarrow>
                (case ModeloSuicidio_init p (map Poblacion_10ymas_P df) (map anio df) of
                   Inl e \<Rightarrow> Inl e
                 | Inr modelo \<Rightarrow>
                     (case evaluar_en_puntos solve_ivp modelo t_inicial t_final x0_cond t_puntos of
                        Inl _ \<Rightarrow> Inr (map (\<lambda>_. 1 * 10 ^ 10) T_obs')
                      | Inr (S_model, T_model, R_model) \<Rightarrow> Inr (map2 (-) T_model T_obs')))))"

text \<open>
  \<open>calibrar_parametros(df, params_iniciales, metodo, verbose)\<close>; the metrics computed at
  the end are only printed and are omitted, the simulation before them is kept because
  it can raise.
\<close>

definition calibrar_parametros_pkg ::
  "optimizer \<Rightarrow> ivp_solver \<Rightarrow> dataframe \<Rightarrow> ModeloParametros \<Rightarrow> string \<Rightarrow> int
     \<Rightarrow> py_error + (ModeloParametros \<times> opt_result)" where
  "calibrar_parametros_pkg least_squares solve_ivp df params_iniciales metodo verbose =
     (let x0 = (theta params_iniciales, rho params_iniciales,
                beta params_iniciales, gamma params_iniciales);
          t_puntos = map (\<lambda>r. real_of_int (anio r)) df
      in case t_puntos of
           [] \<Rightarrow> Inl IndexError
         | _ # _ \<Rightarrow>
             (let t_inicial = hd t_puntos;
                  t_final = last t_puntos;
                  bounds = ([0, 0, 0, 0], [None, None, Some 1, None])
              in case least_squares
                        (residuos solve_ivp df params_iniciales t_inicial t_final) x0 bounds
                        \<lparr> ls_method = metodo, ls_verbose = verbose, ls_max_nfev = Some 1000,
                          ls_ftol = 1 / 10 ^ 8, ls_xtol = 1 / 10 ^ 8, ls_gtol = 1 / 10 ^ 8 \<rparr> of
                   Inl e \<Rightarrow> Inl e
                 | Inr resultado \<Rightarrow>
                     (case res_x resultado of (theta_opt, rho_opt, beta_opt, gamma_opt) \<Rightarrow>
                        (let params_calibrados =
                               \<lparr> delta = delta params_iniciales,
                                 delta_s = delta_s params_iniciales,
                                 delta_n = delta_n params_iniciales,
                                 m = m params_iniciales, phi = phi params_iniciales,
                                 psi = psi params_iniciales,
                                 theta = theta_opt, rho = rho_opt,
                                 beta = beta_opt, gamma = gamma_opt \<rparr>
                         in case condiciones_iniciales_pkg df params_calibrados of
                              Inl e \<Rightarrow> Inl e
                            | Inr (x0_cond, _) \<Rightarrow>
                                (case ModeloSuicidio_init params_calibrados
                                        (map Poblacion_10ymas_P df) (map anio df) of
                                   Inl e \<Rightarrow> Inl e
                                 | Inr modelo \<Rightarrow>
                                     (case evaluar_en_puntos solve_ivp modelo t_inicial t_final
                                             x0_cond t_puntos of
                                        Inl e \<Rightarrow> Inl e
                                      | Inr _ \<Rightarrow> Inr (params_calibrados, resultado)))))))"

section \<open>The specification's formulas\<close>

text \<open>
  The derivative vector as the specification writes it, for a parameter set, a
  population value \<open>Pf\<close> that has already been floored, and a state.
\<close>

definition spec_derivative :: "ModeloParametros \<Rightarrow> real \<Rightarrow> state \<Rightarrow> state" where
  "spec_derivative p Pf y =
     (case y of (S, T, R) \<Rightarrow>
       (let inflow_influence = beta p * delta_s p * (T / Pf) * S;
            inflow_other = gamma p * (1 - beta p) * delta_s p * S;
            dS = theta p * Pf + (1 - delta_n p) * R - inflow_other - inflow_influence
                 - delta_s p * S - delta_n p * S;
            dT = inflow_other + inflow_influence - rho p * T - delta_s p * T - delta_n p * T;
            dR = rho p * T - R
        in (dS, dT, dR)))"

text \<open>The initial state of the specification, its clamping and the warnings it asks for.\<close>

definition spec_estado_inicial :: "ModeloParametros \<Rightarrow> real \<Rightarrow> state" where
  "spec_estado_inicial p P0 =
     (let T0 = m p * P0; R0 = phi p * T0; S0 = P0 - T0 - R0 in (S0, T0, R0))"

definition spec_clamp :: "state \<Rightarrow> state" where
  "spec_clamp y = (case y of (S0, T0, R0) \<Rightarrow> (max 0 S0, max 0 T0, max 0 R0))"

definition spec_advertencias :: "state \<Rightarrow> advertencia list" where
  "spec_advertencias y =
     (case y of (S0, T0, R0) \<Rightarrow>
        (if S0 < 0 then [S0_negativo S0] else [])
        @ (if T0 < 0 then [T0_negativo T0] else [])
        @ (if R0 < 0 then [R0_negativo R0] else []))"

section \<open>Concrete inputs\<close>

text \<open>The example scenario of the specification, and a degenerate parameter regime.\<close>

definition params_ejemplo :: ModeloParametros where
  "params_ejemplo =
     \<lparr> delta = 1 / 100, delta_s = 1 / 1000, delta_n = 9 / 1000, m = 1 / 200, phi = 1 / 2,
       psi = 397 / 400, theta = 1 / 100, rho = 1 / 10, beta = 3 / 10, gamma = 7 / 10 \<rparr>"

definition params_degenerados :: ModeloParametros where
  "params_degenerados = params_ejemplo \<lparr> m := 1 / 2, phi := 2 \<rparr>"

definition df_ejemplo :: dataframe where
  "df_ejemplo =
     [\<lparr> anio = 2010, Poblacion_10ymas_P = 100000, T_obs = 500 \<rparr>,
      \<lparr> anio = 2011, Poblacion_10ymas_P = 101000, T_obs = 520 \<rparr>,
      \<lparr> anio = 2012, Poblacion_10ymas_P = 102000, T_obs = 540 \<rparr>]"

definition modelo_ejemplo :: ModeloNoLineal where
  "modelo_ejemplo = \<lparr> params = params_ejemplo, anios = [2010, 2011], P = [100, 200] \<rparr>"

definition modelo_suicidio_ejemplo :: ModeloSuicidio where
  "modelo_suicidio_ejemplo =
     \<lparr> param = params_ejemplo, series_P = [100, 200], series_anio = [2010, 2011] \<rparr>"

text \<open>A sparse series whose population stays below one.\<close>

definition modelo_escaso :: ModeloNoLineal where
  "modelo_escaso =
     \<lparr> params = params_ejemplo \<lparr> beta := 1, delta_s := 1 \<rparr>,
       anios = [2010, 2011], P = [1 / 2, 1 / 2] \<rparr>"

definition modelo_suicidio_escaso :: ModeloSuicidio where
  "modelo_suicidio_escaso =
     \<lparr> param = params_ejemplo \<lparr> beta := 1, delta_s := 1 \<rparr>,
       series_P = [1 / 2, 1 / 2], series_anio = [2010, 2011] \<rparr>"

text \<open>
  Stand-ins for the library solver: one that holds the initial state at every requested
  time and reports success or, after the first time, failure; one that raises.
\<close>

definition solver_constante :: "bool \<Rightarrow> ivp_solver" where
  "solver_constante ok f t_span y0 method t_eval dense_output =
     (let pts = (case t_eval of None \<Rightarrow> [fst t_span, snd t_span] | Some ts \<Rightarrow> ts);
          reached = (if ok then pts else take 1 pts)
      in Inr \<lparr> sol_t = reached,
               sol_y = (map (\<lambda>_. fst y0) reached, map (\<lambda>_. fst (snd y0)) reached,
                        map (\<lambda>_. snd (snd y0)) reached),
               sol_sol = (\<lambda>_. y0),
               sol_status = (if ok then 0 else - 1),
               sol_success = ok,
               sol_message = (if ok then ''The solver successfully reached the end of the integration interval.''
                              else ''Required step size is less than spacing between numbers.'') \<rparr>)"

definition solver_que_lanza :: ivp_solver where
  "solver_que_lanza f t_span y0 method t_eval dense_output =
     Inl (LibraryError ''solve_ivp raised'')"

text \<open>
  A stand-in for the library optimizer that stops after evaluating the objective at the
  starting point.
\<close>

definition optimizador_un_paso :: optimizer where
  "optimizador_un_paso f x0 bounds opts =
     (case f x0 of
        Inl e \<Rightarrow> Inl e
      | Inr r \<Rightarrow>
          Inr \<lparr> res_x = x0, res_cost = sum_list (map (\<lambda>v. v * v) r) / 2,
                res_message = ''The maximum number of function evaluations is exceeded.'',
                res_success = False, res_nfev = 1 \<rparr>)"

text \<open>
  What the failing stand-in returns on the interval from 2010 to 2011 from the state
  \<open>(1000, 10, 5)\<close>, and the tables and results the examples below evaluate to.
\<close>

definition sol_parcial :: ode_result where
  "sol_parcial =
     \<lparr> sol_t = [2010], sol_y = ([1000], [10], [5]), sol_sol = (\<lambda>_. (1000, 10, 5)),
       sol_status = - 1, sol_success = False,
       sol_message = ''Required step size is less than spacing between numbers.'' \<rparr>"



definition log_ejemplo :: calib_log where
  "log_ejemplo =
     \<lparr> log_x0 = (9 / 1000, 1 / 10, 3 / 10, 10), log_costo = 1000, log_exito = False,
       log_mensaje = Maximo_evaluaciones \<rparr>"

definition resultado_ejemplo :: opt_result where
  "resultado_ejemplo =
     \<lparr> res_x = (1 / 100, 1 / 10, 3 / 10, 7 / 10), res_cost = 1000,
       res_message = ''The maximum number of function evaluations is exceeded.'',
       res_success = False, res_nfev = 1 \<rparr>"

section \<open>Evaluations shared by the concrete instances\<close>

lemma P_t_modelo_ejemplo: "P_t modelo_ejemplo (4021 / 2) = Inr 150"
  by (simp add: P_t_def modelo_ejemplo_def np_interp_def)

lemma P_t_suicidio_ejemplo: "P_t_suicidio modelo_suicidio_ejemplo (4021 / 2) = Inr 150"
  by (simp add: P_t_suicidio_def modelo_suicidio_ejemplo_def np_interp_def)

lemma P_t_modelo_escaso: "P_t modelo_escaso 2010 = Inr (1 / 2)"
  by (simp add: P_t_def modelo_escaso_def np_interp_def)

lemma P_t_suicidio_escaso: "P_t_suicidio modelo_suicidio_escaso 2010 = Inr (1 / 2)"
  by (simp add: P_t_suicidio_def modelo_suicidio_escaso_def np_interp_def)

lemma filter_anio_ejemplo:
  "filter (\<lambda>r. anio r = 2010) df_ejemplo
     = [\<lparr> anio = 2010, Poblacion_10ymas_P = 100000, T_obs = 500 \<rparr>]"
  by (simp add: df_ejemplo_def)

lemma linspace_ejemplo: "np_linspace 2010 2011 3 = Inr [2010, 4021 / 2, 2011]"
  by (simp add: np_linspace_def upt_conv_Cons)

lemma solver_constante_falla:
  "solver_constante False f (2010, 2011) (1000, 10, 5) meth (Some [2010, 4021 / 2, 2011]) d
     = Inr sol_parcial"
  by (simp add: solver_constante_def sol_parcial_def)

lemma solver_constante_falla_denso:
  "solver_constante False f (2010, 2011) (1000, 10, 5) meth None d
     = Inr (sol_parcial)"
  by (simp add: solver_constante_def sol_parcial_def)



lemma condiciones_iniciales_pkg_ejemplo:
  "condiciones_iniciales_pkg df_ejemplo params_ejemplo = Inr ((99250, 500, 250), [])"
  by (simp add: condiciones_iniciales_pkg_def df_ejemplo_def params_ejemplo_def Let_def)


lemma ModeloSuicidio_init_ejemplo:
  "ModeloSuicidio_init params_ejemplo (map Poblacion_10ymas_P df_ejemplo) (map anio df_ejemplo)
     = Inr \<lparr> param = params_ejemplo, series_P = [100000, 101000, 102000],
             series_anio = [2010, 2011, 2012] \<rparr>"
  by (simp add: ModeloSuicidio_init_def df_ejemplo_def Let_def)


lemma ventana_ejemplo:
  "filter (\<lambda>r. 2010 \<le> anio r \<and> anio r \<le> 2011) df_ejemplo
     = [\<lparr> anio = 2010, Poblacion_10ymas_P = 100000, T_obs = 500 \<rparr>,
        \<lparr> anio = 2011, Poblacion_10ymas_P = 101000, T_obs = 520 \<rparr>]"
  by (simp add: df_ejemplo_def)

lemma condiciones_iniciales_prueba:
  "condiciones_iniciales df_ejemplo
     (params_ejemplo \<lparr> theta := 1, rho := 1, beta := 1, gamma := 1 \<rparr>) 2010
     = Inr (99250, 500, 250)"
  using filter_anio_ejemplo
  by (simp add: condiciones_iniciales_def params_ejemplo_def Let_def)

lemma msg_maximo:
  "msg_traducido ''The maximum number of function evaluations is exceeded.''
     = Maximo_evaluaciones"
  by code_simp

lemma ventana_completa:
  "filter (\<lambda>r. 2010 \<le> anio r \<and> anio r \<le> 2012) df_ejemplo = df_ejemplo"
  by (simp add: df_ejemplo_def)

lemma residuals_ejemplo:
  "residuals (solver_constante True) df_ejemplo params_ejemplo 2010 2012
     (9 / 1000, 1 / 10, 3 / 10, 10) = [0, - 20, - 40]"
proof -
  have ci: "condiciones_iniciales df_ejemplo
              \<lparr> delta = delta params_ejemplo, delta_s = delta_s params_ejemplo,
                delta_n = delta_n params_ejemplo, m = m params_ejemplo,
                phi = phi params_ejemplo, psi = psi params_ejemplo,
                theta = 9 / 1000, rho = 1 / 10, beta = 3 / 10, gamma = 10 \<rparr> 2010
            = Inr (99250, 500, 250)"
    using filter_anio_ejemplo
    by (simp add: condiciones_iniciales_def params_ejemplo_def Let_def)
  show ?thesis
    unfolding residuals_def
    by (simp add: Let_def ventana_completa ci)
       (simp add: solver_constante_def df_ejemplo_def)
qed

lemma calibrar_parametros_ejemplo:
  "calibrar_parametros optimizador_un_paso (solver_constante True) df_ejemplo params_ejemplo
       2010 2012 5 5 None
     = Inr (params_ejemplo \<lparr> theta := 9 / 1000, gamma := 10 \<rparr>, 1000, log_ejemplo)"
proof -
  have r: "residuals (solver_constante True) df_ejemplo params_ejemplo 2010 2012
             (delta_n params_ejemplo, 1 / 10, 3 / 10, 10) = [0, - 20, - 40]"
    using residuals_ejemplo by (simp add: params_ejemplo_def)
  show ?thesis
    unfolding calibrar_parametros_def
    by (simp add: Let_def optimizador_un_paso_def r msg_maximo log_ejemplo_def)
       (simp add: params_ejemplo_def)
qed

lemma residuos_ejemplo:
  "residuos (solver_constante True) df_ejemplo params_ejemplo 2010 2012
     (theta params_ejemplo, rho params_ejemplo, beta params_ejemplo, gamma params_ejemplo)
     = Inr [0, - 20, - 40]"
proof -
  have same: "\<lparr> delta = delta params_ejemplo, delta_s = delta_s params_ejemplo,
                delta_n = delta_n params_ejemplo, m = m params_ejemplo,
                phi = phi params_ejemplo, psi = psi params_ejemplo,
                theta = theta params_ejemplo, rho = rho params_ejemplo,
                beta = beta params_ejemplo, gamma = gamma params_ejemplo \<rparr> = params_ejemplo"
    by (simp add: params_ejemplo_def)
  show ?thesis
    unfolding residuos_def
    by (simp add: Let_def same condiciones_iniciales_pkg_ejemplo ModeloSuicidio_init_ejemplo)
       (simp add: evaluar_en_puntos_def solver_constante_def df_ejemplo_def)
qed

lemma calibrar_parametros_pkg_ejemplo:
  "calibrar_parametros_pkg optimizador_un_paso (solver_constante True) df_ejemplo
       params_ejemplo ''trf'' 1
     = Inr (params_ejemplo, resultado_ejemplo)"
proof -
  have tp: "map (\<lambda>r. real_of_int (anio r)) df_ejemplo = [2010, 2011, 2012]"
    by (simp add: df_ejemplo_def)
  have same: "\<lparr> delta = delta params_ejemplo, delta_s = delta_s params_ejemplo,
                delta_n = delta_n params_ejemplo, m = m params_ejemplo,
                phi = phi params_ejemplo, psi = psi params_ejemplo,
                theta = theta params_ejemplo, rho = rho params_ejemplo,
                beta = beta params_ejemplo, gamma = gamma params_ejemplo \<rparr> = params_ejemplo"
    by (simp add: params_ejemplo_def)
  have ev: "evaluar_en_puntos (solver_constante True)
              \<lparr> param = params_ejemplo, series_P = [100000, 101000, 102000],
                series_anio = [2010, 2011, 2012] \<rparr> 2010 2012 (99250, 500, 250)
              [2010, 2011, 2012]
            = Inr ([99250, 99250, 99250], [500, 500, 500], [250, 250, 250])"
    by (simp add: evaluar_en_puntos_def solver_constante_def)
  show ?thesis
    unfolding calibrar_parametros_pkg_def tp
    by (simp add: Let_def optimizador_un_paso_def residuos_ejemplo same
          condiciones_iniciales_pkg_ejemplo ModeloSuicidio_init_ejemplo ev)
       (simp add: resultado_ejemplo_def params_ejemplo_def)
qed

section \<open>The right-hand side\<close>

lemma np_interp_total:
  "xp \<noteq> [] \<Longrightarrow> length fp = length xp \<Longrightarrow> \<exists>v. np_interp x xp fp = Inr v"
  by (simp add: np_interp_def)

text \<open>
  Claim C1, as amended.  Whenever the interpolator returns a population at time \<open>t\<close>,
  each of the two right-hand sides returns exactly the derivative vector of the
  specification's equations, evaluated at its own guarded population.
  \<open>ModeloSuicidio.rhs\<close> evaluates them at the population floored at one.
  \<open>ModeloNoLineal.rhs\<close> evaluates them at one when the interpolated population is
  below \<open>1e-9\<close> and at the interpolated population itself otherwise; this is the
  population floored at one exactly when the interpolated population is below \<open>1e-9\<close>
  or at least one.  On a model built from a table with at least one row the interpolator
  returns a population at every time.
\<close>

theorem rhs_matches_equations:
  "(P_t mn t = Inr Pa \<longrightarrow>
      rhs mn t y = Inr (spec_derivative (params mn) (if Pa < 1 / 10 ^ 9 then 1 else Pa) y)) \<and>
   (P_t mn t = Inr Pa \<and> (Pa < 1 / 10 ^ 9 \<or> 1 \<le> Pa) \<longrightarrow>
      rhs mn t y = Inr (spec_derivative (params mn) (max Pa 1) y)) \<and>
   (P_t_suicidio ms t = Inr Pb \<longrightarrow>
      rhs_suicidio ms t y = Inr (spec_derivative (param ms) (max Pb 1) y)) \<and>
   (df \<noteq> [] \<longrightarrow>
      (\<exists>Pv. P_t (ModeloNoLineal_init p (map anio df) (map Poblacion_10ymas_P df)) t = Inr Pv) \<and>
      (\<exists>ms' Pv. ModeloSuicidio_init p (map Poblacion_10ymas_P df) (map anio df) = Inr ms' \<and>
                 P_t_suicidio ms' t = Inr Pv))"
proof -
  have a: "P_t mn t = Inr Pa \<longrightarrow>
      rhs mn t y = Inr (spec_derivative (params mn) (if Pa < 1 / 10 ^ 9 then 1 else Pa) y)"
    by (cases y) (simp add: rhs_def spec_derivative_def Let_def)
  have a': "P_t mn t = Inr Pa \<and> (Pa < 1 / 10 ^ 9 \<or> 1 \<le> Pa) \<longrightarrow>
      rhs mn t y = Inr (spec_derivative (params mn) (max Pa 1) y)"
  proof
    assume h: "P_t mn t = Inr Pa \<and> (Pa < 1 / 10 ^ 9 \<or> 1 \<le> Pa)"
    then have "(if Pa < 1 / 10 ^ 9 then 1 else Pa) = max Pa 1"
      by (auto simp: max_def)
    with a h show "rhs mn t y = Inr (spec_derivative (params mn) (max Pa 1) y)"
      by simp
  qed
  have b: "P_t_suicidio ms t = Inr Pb \<longrightarrow>
      rhs_suicidio ms t y = Inr (spec_derivative (param ms) (max Pb 1) y)"
    by (cases y) (simp add: rhs_suicidio_def spec_derivative_def Let_def max_def)
  have c: "df \<noteq> [] \<longrightarrow>
      (\<exists>Pv. P_t (ModeloNoLineal_init p (map anio df) (map Poblacion_10ymas_P df)) t = Inr Pv)"
    by (simp add: P_t_def ModeloNoLineal_init_def np_interp_total)
  have d: "df \<noteq> [] \<longrightarrow>
      (\<exists>ms' Pv. ModeloSuicidio_init p (map Poblacion_10ymas_P df) (map anio df) = Inr ms' \<and>
                 P_t_suicidio ms' t = Inr Pv)"
  proof
    assume ne: "df \<noteq> []"
    let ?s = "sort_key fst (zip (map real_of_int (map anio df)) (map Poblacion_10ymas_P df))"
    let ?ms = "\<lparr> param = p, series_P = map snd ?s, series_anio = map fst ?s \<rparr>"
    have mi: "ModeloSuicidio_init p (map Poblacion_10ymas_P df) (map anio df) = Inr ?ms"
      by (simp add: ModeloSuicidio_init_def Let_def)
    have "length (map fst ?s) = length df" by simp
    with ne have "length (map fst ?s) \<noteq> 0" by simp
    then have "map fst ?s \<noteq> []" by (simp only: length_0_conv not_False_eq_True)
    moreover have "length (map snd ?s) = length (map fst ?s)" by simp
    ultimately obtain Pv where "np_interp t (map fst ?s) (map snd ?s) = Inr Pv"
      using np_interp_total by blast
    then have "P_t_suicidio ?ms t = Inr Pv" by (simp add: P_t_suicidio_def)
    with mi show "\<exists>ms' Pv. ModeloSuicidio_init p (map Poblacion_10ymas_P df) (map anio df)
                     = Inr ms' \<and> P_t_suicidio ms' t = Inr Pv"
      by blast
  qed
  from a a' b c d show ?thesis by blast
qed

theorem rhs_matches_equations_witness:
  "P_t modelo_ejemplo (4021 / 2) = Inr 150 \<and>
   (1::real) \<le> 150 \<and>
   rhs modelo_ejemplo (4021 / 2) (1000, 10, 5) = Inr (- (811 / 200), - (59 / 100), - 4) \<and>
   rhs modelo_ejemplo (4021 / 2) (1000, 10, 5)
     = Inr (spec_derivative params_ejemplo (max 150 1) (1000, 10, 5)) \<and>
   P_t_suicidio modelo_suicidio_ejemplo (4021 / 2) = Inr 150 \<and>
   rhs_suicidio modelo_suicidio_ejemplo (4021 / 2) (1000, 10, 5)
     = Inr (- (811 / 200), - (59 / 100), - 4) \<and>
   df_ejemplo \<noteq> []"
  using rhs_matches_equations [of modelo_ejemplo "4021 / 2" 150 "(1000, 10, 5)"
          modelo_suicidio_ejemplo 150 df_ejemplo params_ejemplo]
        P_t_modelo_ejemplo P_t_suicidio_ejemplo
  by (simp add: spec_derivative_def modelo_ejemplo_def modelo_suicidio_ejemplo_def
        params_ejemplo_def Let_def df_ejemplo_def)

text \<open>
  Claim C1 as stated, with the population floored at one, fails on
  \<open>ModeloNoLineal.rhs\<close>: on a series that interpolates to one half at 2010, the state
  \<open>(1, 1, 0)\<close> with \<open>beta = delta_s = 1\<close> gives a derivative vector computed from one
  half, which is not the vector the equations give at the floored population one.
\<close>

theorem rhs_not_floored_at_one_counterexample:
  "P_t modelo_escaso 2010 = Inr (1 / 2) \<and>
   max (1 / 2) (1::real) = 1 \<and>
   rhs modelo_escaso 2010 (1, 1, 0) = Inr (- (751 / 250), 891 / 1000, 1 / 10) \<and>
   spec_derivative (params modelo_escaso) (max (1 / 2) 1) (1, 1, 0)
     = (- (1999 / 1000), - (109 / 1000), 1 / 10) \<and>
   rhs modelo_escaso 2010 (1, 1, 0)
     \<noteq> Inr (spec_derivative (params modelo_escaso) (max (1 / 2) 1) (1, 1, 0))"
  using P_t_modelo_escaso
  by (simp add: rhs_def spec_derivative_def Let_def modelo_escaso_def params_ejemplo_def)

text \<open>
  Claim C2, as amended.  The value that divides \<open>T\<close> is at least one in
  \<open>ModeloSuicidio.rhs\<close>, where an interpolated population below one is replaced by one.
  In \<open>ModeloNoLineal.rhs\<close> it is at least \<open>1e-9\<close>: one is substituted only for an
  interpolated population below \<open>1e-9\<close>, and a population between \<open>1e-9\<close> and one
  divides as it is.  In both, the derivative vector is computed from that value.
\<close>

theorem rhs_divisor_floor:
  "(P_guarded_suicidio ms t = Inr Pb \<longrightarrow>
      1 \<le> Pb \<and> (\<exists>Pv. P_t_suicidio ms t = Inr Pv \<and> Pb = (if Pv < 1 then 1 else Pv)) \<and>
      rhs_suicidio ms t y = Inr (spec_derivative (param ms) Pb y)) \<and>
   (P_val_guarded mn t = Inr Pa \<longrightarrow>
      1 / 10 ^ 9 \<le> Pa \<and>
      (\<exists>Pv. P_t mn t = Inr Pv \<and> Pa = (if Pv < 1 / 10 ^ 9 then 1 else Pv)) \<and>
      rhs mn t y = Inr (spec_derivative (params mn) Pa y))"
proof -
  have a: "P_guarded_suicidio ms t = Inr Pb \<longrightarrow>
      1 \<le> Pb \<and> (\<exists>Pv. P_t_suicidio ms t = Inr Pv \<and> Pb = (if Pv < 1 then 1 else Pv))"
    by (auto simp: P_guarded_suicidio_def split: sum.splits if_splits)
  have b: "P_guarded_suicidio ms t = Inr Pb \<longrightarrow>
      rhs_suicidio ms t y = Inr (spec_derivative (param ms) Pb y)"
    by (cases y) (auto simp: rhs_suicidio_def P_guarded_suicidio_def spec_derivative_def Let_def
          split: sum.splits)
  have c: "P_val_guarded mn t = Inr Pa \<longrightarrow>
      1 / 10 ^ 9 \<le> Pa \<and>
      (\<exists>Pv. P_t mn t = Inr Pv \<and> Pa = (if Pv < 1 / 10 ^ 9 then 1 else Pv))"
    by (auto simp: P_val_guarded_def split: sum.splits if_splits)
  have d: "P_val_guarded mn t = Inr Pa \<longrightarrow>
      rhs mn t y = Inr (spec_derivative (params mn) Pa y)"
    by (cases y) (auto simp: rhs_def P_val_guarded_def spec_derivative_def Let_def
          split: sum.splits)
  from a b c d show ?thesis by blast
qed

theorem rhs_divisor_floor_witness:
  "P_guarded_suicidio modelo_suicidio_escaso 2010 = Inr 1 \<and>
   rhs_suicidio modelo_suicidio_escaso 2010 (1, 1, 0)
     = Inr (- (1999 / 1000), - (109 / 1000), 1 / 10) \<and>
   P_val_guarded modelo_escaso 2010 = Inr (1 / 2) \<and>
   P_val_guarded (modelo_escaso \<lparr> P := [0, 0] \<rparr>) 2010 = Inr 1"
proof -
  have g: "P_guarded_suicidio modelo_suicidio_escaso 2010 = Inr 1"
    using P_t_suicidio_escaso by (simp add: P_guarded_suicidio_def)
  have h: "P_val_guarded modelo_escaso 2010 = Inr (1 / 2)"
    using P_t_modelo_escaso by (simp add: P_val_guarded_def)
  have r: "rhs_suicidio modelo_suicidio_escaso 2010 (1, 1, 0)
             = Inr (- (1999 / 1000), - (109 / 1000), 1 / 10)"
    using rhs_divisor_floor [of modelo_suicidio_escaso 2010 1 "(1, 1, 0)" modelo_escaso "1 / 2"]
          g h
    by (simp add: spec_derivative_def modelo_suicidio_escaso_def params_ejemplo_def Let_def)
  have z: "P_val_guarded (modelo_escaso \<lparr> P := [0, 0] \<rparr>) 2010 = Inr 1"
    by (simp add: P_val_guarded_def P_t_def np_interp_def modelo_escaso_def)
  from g h r z show ?thesis by simp
qed

text \<open>
  Claim C2 as stated fails on \<open>ModeloNoLineal.rhs\<close>: a series that interpolates to
  one half at 2010 leaves one half as the divisor, so the contagion term of the state
  \<open>(1, 1, 0)\<close> with \<open>beta = delta_s = 1\<close> is two, where \<open>ModeloSuicidio.rhs\<close> on the
  same data divides by one.
\<close>

theorem rhs_divisor_below_one_counterexample:
  "P_t modelo_escaso 2010 = Inr (1 / 2) \<and>
   P_val_guarded modelo_escaso 2010 = Inr (1 / 2) \<and>
   rhs modelo_escaso 2010 (1, 1, 0) = Inr (- (751 / 250), 891 / 1000, 1 / 10) \<and>
   rhs_suicidio modelo_suicidio_escaso 2010 (1, 1, 0)
     = Inr (- (1999 / 1000), - (109 / 1000), 1 / 10)"
  using P_t_modelo_escaso P_t_suicidio_escaso
  by (simp add: rhs_def rhs_suicidio_def P_val_guarded_def P_guarded_suicidio_def Let_def
        modelo_escaso_def modelo_suicidio_escaso_def params_ejemplo_def)

text \<open>
  Claim C9.  Two parameter sets that agree on \<open>delta_s\<close>, \<open>delta_n\<close>, \<open>theta\<close>,
  \<open>rho\<close>, \<open>beta\<close> and \<open>gamma\<close> give the same result of either right-hand side at
  every time and state, whatever their \<open>delta\<close>, \<open>m\<close>, \<open>phi\<close> and \<open>psi\<close>.
\<close>

theorem rhs_ignores_other_fields:
  "delta_s pa = delta_s pb \<Longrightarrow> delta_n pa = delta_n pb \<Longrightarrow> theta pa = theta pb \<Longrightarrow>
   rho pa = rho pb \<Longrightarrow> beta pa = beta pb \<Longrightarrow> gamma pa = gamma pb \<Longrightarrow>
   rhs (mn \<lparr> params := pa \<rparr>) t y = rhs (mn \<lparr> params := pb \<rparr>) t y \<and>
   rhs_suicidio (ms \<lparr> param := pa \<rparr>) t y = rhs_suicidio (ms \<lparr> param := pb \<rparr>) t y"
  by (cases y) (simp add: rhs_def rhs_suicidio_def P_t_def P_t_suicidio_def Let_def
        split: sum.splits)

theorem rhs_ignores_other_fields_witness:
  "rhs (modelo_ejemplo \<lparr> params := params_ejemplo \<rparr>) (4021 / 2) (1000, 10, 5)
     = rhs (modelo_ejemplo
          \<lparr> params := params_ejemplo \<lparr> delta := 7, m := 1 / 2, phi := 2, psi := - 1 / 2 \<rparr> \<rparr>)
         (4021 / 2) (1000, 10, 5) \<and>
   rhs_suicidio (modelo_suicidio_ejemplo \<lparr> param := params_ejemplo \<rparr>) (4021 / 2) (1000, 10, 5)
     = rhs_suicidio (modelo_suicidio_ejemplo
          \<lparr> param := params_ejemplo \<lparr> delta := 7, m := 1 / 2, phi := 2, psi := - 1 / 2 \<rparr> \<rparr>)
         (4021 / 2) (1000, 10, 5)"
  using rhs_ignores_other_fields [of params_ejemplo
          "params_ejemplo \<lparr> delta := 7, m := 1 / 2, phi := 2, psi := - 1 / 2 \<rparr>"
          modelo_ejemplo "4021 / 2" "(1000, 10, 5)" modelo_suicidio_ejemplo]
  by simp

section \<open>Initial conditions: results\<close>

text \<open>
  Claim C3, as amended.  On a table with a first row, the series-keyed solver
  (analysis.py) returns the state \<open>T0 = m * P0\<close>, \<open>R0 = phi * T0\<close>,
  \<open>S0 = P0 - T0 - R0\<close> of that row's population with each negative component replaced
  by zero, and one warning for each replaced component.  The window-keyed solver
  (core/analysis.py) returns the same three values of the first row of the start year as
  they are, negative or not, and warns of nothing.  Before any clamping the three values
  add up to \<open>P0\<close>.
\<close>

theorem condiciones_iniciales_both_variants:
  "condiciones_iniciales_pkg (row # rest) p
     = Inr (spec_clamp (spec_estado_inicial p (Poblacion_10ymas_P row)),
            spec_advertencias (spec_estado_inicial p (Poblacion_10ymas_P row))) \<and>
   (filter (\<lambda>r. anio r = a) df = row # others \<longrightarrow>
      condiciones_iniciales df p a = Inr (spec_estado_inicial p (Poblacion_10ymas_P row))) \<and>
   (spec_estado_inicial p P0 = (S0, T0, R0) \<longrightarrow>
      T0 = m p * P0 \<and> R0 = phi p * T0 \<and> S0 = P0 - T0 - R0 \<and> S0 + T0 + R0 = P0)"
  by (auto simp: condiciones_iniciales_pkg_def condiciones_iniciales_def spec_clamp_def
        spec_estado_inicial_def spec_advertencias_def Let_def max_def)

theorem condiciones_iniciales_both_variants_witness:
  "condiciones_iniciales_pkg df_ejemplo params_degenerados
     = Inr ((0, 50000, 100000), [S0_negativo (- 50000)]) \<and>
   condiciones_iniciales_pkg df_ejemplo params_ejemplo = Inr ((99250, 500, 250), []) \<and>
   condiciones_iniciales df_ejemplo params_ejemplo 2010 = Inr (99250, 500, 250) \<and>
   (99250::real) + 500 + 250 = 100000"
proof -
  let ?row = "\<lparr> anio = 2010, Poblacion_10ymas_P = 100000, T_obs = 500 \<rparr>"
  let ?rest = "[\<lparr> anio = 2011, Poblacion_10ymas_P = 101000, T_obs = 520 \<rparr>,
                \<lparr> anio = 2012, Poblacion_10ymas_P = 102000, T_obs = 540 \<rparr>]"
  have a: "condiciones_iniciales_pkg df_ejemplo params_degenerados
             = Inr ((0, 50000, 100000), [S0_negativo (- 50000)])"
    using condiciones_iniciales_both_variants [of ?row ?rest params_degenerados]
    by (simp add: df_ejemplo_def spec_clamp_def spec_estado_inicial_def spec_advertencias_def
          params_degenerados_def params_ejemplo_def Let_def)
  have b: "condiciones_iniciales_pkg df_ejemplo params_ejemplo = Inr ((99250, 500, 250), []) \<and>
           condiciones_iniciales df_ejemplo params_ejemplo 2010 = Inr (99250, 500, 250)"
    using condiciones_iniciales_both_variants [of ?row ?rest params_ejemplo 2010 df_ejemplo "[]"]
          filter_anio_ejemplo
    by (simp add: df_ejemplo_def spec_clamp_def spec_estado_inicial_def spec_advertencias_def
          params_ejemplo_def Let_def)
  show ?thesis using a b by simp
qed

text \<open>
  Claim C3 as stated fails on the window-keyed solver: with \<open>m = 1/2\<close> and
  \<open>phi = 2\<close> on a population of 100000 it returns the negative \<open>S0 = -50000\<close>,
  where the series-keyed solver returns zero and a warning.
\<close>

theorem condiciones_iniciales_unclamped_counterexample:
  "condiciones_iniciales df_ejemplo params_degenerados 2010 = Inr (- 50000, 50000, 100000)"
  using filter_anio_ejemplo
  by (simp add: condiciones_iniciales_def params_degenerados_def params_ejemplo_def Let_def)

text \<open>
  Claim C8.  The solver that takes a start year (core/analysis.py) fails with the
  missing-year \<open>ValueError\<close> for every year that no row of the table carries, and a
  state it returns is computed from the population of a row of exactly that year.
\<close>

theorem condiciones_iniciales_missing_year:
  "(a \<notin> anio ` set df \<longrightarrow> condiciones_iniciales df p a = Inl (NoDataForYear a)) \<and>
   (condiciones_iniciales df p a = Inr st \<longrightarrow>
      (\<exists>row \<in> set df. anio row = a \<and> st = spec_estado_inicial p (Poblacion_10ymas_P row)))"
proof (intro conjI impI)
  assume "a \<notin> anio ` set df"
  then have "filter (\<lambda>r. anio r = a) df = []"
    by (auto simp: filter_empty_conv)
  then show "condiciones_iniciales df p a = Inl (NoDataForYear a)"
    by (simp add: condiciones_iniciales_def)
next
  assume ok: "condiciones_iniciales df p a = Inr st"
  then obtain row others where f: "filter (\<lambda>r. anio r = a) df = row # others"
    by (cases "filter (\<lambda>r. anio r = a) df") (auto simp: condiciones_iniciales_def)
  then have "row \<in> set (filter (\<lambda>r. anio r = a) df)" by simp
  then have "row \<in> set df" "anio row = a" by auto
  moreover have "st = spec_estado_inicial p (Poblacion_10ymas_P row)"
    using ok f by (simp add: condiciones_iniciales_def spec_estado_inicial_def Let_def)
  ultimately show
    "\<exists>row \<in> set df. anio row = a \<and> st = spec_estado_inicial p (Poblacion_10ymas_P row)"
    by blast
qed

theorem condiciones_iniciales_missing_year_witness:
  "2009 \<notin> anio ` set df_ejemplo \<and>
   condiciones_iniciales df_ejemplo params_ejemplo 2009 = Inl (NoDataForYear 2009)"
proof -
  have h: "2009 \<notin> anio ` set df_ejemplo" by (simp add: df_ejemplo_def)
  with condiciones_iniciales_missing_year [of 2009 df_ejemplo params_ejemplo]
  show ?thesis by simp
qed

section \<open>Simulation and solver failure\<close>

lemma evaluar_en_puntos_failure:
  "(\<exists>e. evaluar_en_puntos sv ms ti tf x0 pts = Inl e) \<longleftrightarrow>
     (case sv (rhs_suicidio ms) (ti, tf) x0 ''RK45'' None True of
        Inl e \<Rightarrow> True | Inr sol \<Rightarrow> \<not> sol_success sol)"
  by (simp add: evaluar_en_puntos_def Let_def split: sum.splits)

lemma evaluar_en_puntos_lengths:
  "evaluar_en_puntos sv ms ti tf x0 pts = Inr (Sm, Tm, Rm) \<Longrightarrow>
     length Sm = length pts \<and> length Tm = length pts \<and> length Rm = length pts"
  by (auto simp: evaluar_en_puntos_def Let_def split: sum.splits if_splits)

text \<open>
  Claim C6, as amended.  When the solver returns a result that reports non-success,
  \<open>ModeloSuicidio.simular\<close> and \<open>ModeloSuicidio.evaluar_en_puntos\<close> fail with the
  \<open>RuntimeError\<close> that carries the solver's message.  \<open>ModeloNoLineal.simular\<close> prints
  a warning with that message and returns the times and states the solver produced.
\<close>

theorem simular_on_solver_failure:
  "(np_linspace t0 tf n = Inr t_eval \<and>
    sv (rhs_suicidio ms) (t0, tf) x0 metodo (Some t_eval) True = Inr sol \<and> \<not> sol_success sol
      \<longrightarrow> simular_suicidio sv ms t0 tf x0 n metodo = Inl (IntegrationFailed (sol_message sol))) \<and>
   (sv (rhs_suicidio ms) (t0, tf) x0 ''RK45'' None True = Inr sol \<and> \<not> sol_success sol
      \<longrightarrow> evaluar_en_puntos sv ms t0 tf x0 pts = Inl (IntegrationFailed (sol_message sol))) \<and>
   (np_linspace t0 tf n = Inr t_eval \<and>
    sv (rhs mn) (t0, tf) x0 ''RK45'' (Some t_eval) False = Inr sol \<and> \<not> sol_success sol
      \<longrightarrow> simular sv mn t0 tf x0 n
            = Inr ((sol_t sol, transpose_y (sol_y sol)),
                   [''Advertencia en simulacion: '' @ sol_message sol]))"
  by (simp add: simular_suicidio_def evaluar_en_puntos_def simular_def)

theorem simular_on_solver_failure_witness:
  "simular_suicidio (solver_constante False) modelo_suicidio_ejemplo 2010 2011 (1000, 10, 5) 3 ''RK45''
     = Inl (IntegrationFailed ''Required step size is less than spacing between numbers.'') \<and>
   evaluar_en_puntos (solver_constante False) modelo_suicidio_ejemplo 2010 2011 (1000, 10, 5) [2010, 2011]
     = Inl (IntegrationFailed ''Required step size is less than spacing between numbers.'') \<and>
   simular (solver_constante False) modelo_ejemplo 2010 2011 (1000, 10, 5) 3
     = Inr (([2010], [(1000, 10, 5)]),
            [''Advertencia en simulacion: Required step size is less than spacing between numbers.''])"
  using simular_on_solver_failure [of 2010 2011 3 "[2010, 4021 / 2, 2011]"
          "solver_constante False" modelo_suicidio_ejemplo "(1000, 10, 5)" "''RK45''"
          sol_parcial "[2010, 2011]" modelo_ejemplo]
        linspace_ejemplo solver_constante_falla solver_constante_falla_denso
  by (simp add: sol_parcial_def transpose_y_def)

text \<open>
  Claim C6 as stated fails on \<open>ModeloNoLineal.simular\<close>: on a solver that stops after
  the first of three requested times and reports non-success, it returns that partial
  trajectory together with the warning.
\<close>

theorem simular_returns_partial_counterexample:
  "solver_constante False (rhs modelo_ejemplo) (2010, 2011) (1000, 10, 5) ''RK45''
       (Some [2010, 4021 / 2, 2011]) False = Inr sol_parcial \<and>
   \<not> sol_success sol_parcial \<and>
   simular (solver_constante False) modelo_ejemplo 2010 2011 (1000, 10, 5) 3
     = Inr (([2010], [(1000, 10, 5)]),
            [''Advertencia en simulacion: Required step size is less than spacing between numbers.''])"
  using linspace_ejemplo solver_constante_falla
  by (simp add: simular_def sol_parcial_def transpose_y_def)

section \<open>Desk check: results\<close>

subsection \<open>The left join\<close>











subsection \<open>The table of the series-keyed desk check\<close>








section \<open>Calibration: results\<close>

subsection \<open>The objective functions\<close>

lemma trial_params_eq:
  "\<lparr> delta = delta pb, delta_s = delta_s pb, delta_n = delta_n pb, m = m pb,
     phi = phi pb, psi = psi pb, theta = th, rho = rh, beta = be, gamma = ga \<rparr>
   = pb \<lparr> theta := th, rho := rh, beta := be, gamma := ga \<rparr>"
  by (cases pb) simp

lemma residuals_length:
  "length (residuals sv df pb a0 a1 x)
     = length (filter (\<lambda>r. a0 \<le> anio r \<and> anio r \<le> a1) df)"
  by (cases x) (simp add: residuals_def Let_def split: sum.splits)

lemma residuals_ci_failure:
  assumes "condiciones_iniciales df (pb \<lparr> theta := th, rho := rh, beta := be, gamma := ga \<rparr>) a0
             = Inl e"
  shows "residuals sv df pb a0 a1 (th, rh, be, ga)
           = replicate (length (filter (\<lambda>r. a0 \<le> anio r \<and> anio r \<le> a1) df)) (10 ^ 6)"
  using assms by (simp add: residuals_def Let_def trial_params_eq)

lemma residuals_solver_failure:
  assumes "condiciones_iniciales df (pb \<lparr> theta := th, rho := rh, beta := be, gamma := ga \<rparr>) a0
             = Inr x0"
    and "(case sv (rhs (ModeloNoLineal_init (pb \<lparr> theta := th, rho := rh, beta := be, gamma := ga \<rparr>)
                         (map anio df) (map Poblacion_10ymas_P df)))
                  (real_of_int a0, real_of_int a1) x0 ''RK45''
                  (Some (map (\<lambda>r. real_of_int (anio r))
                           (filter (\<lambda>r. a0 \<le> anio r \<and> anio r \<le> a1) df))) False of
            Inl e \<Rightarrow> True
          | Inr sol \<Rightarrow> sol_status sol \<noteq> 0 \<or> \<not> sol_success sol)"
  shows "residuals sv df pb a0 a1 (th, rh, be, ga)
           = replicate (length (filter (\<lambda>r. a0 \<le> anio r \<and> anio r \<le> a1) df)) (10 ^ 6)"
  using assms by (auto simp: residuals_def Let_def trial_params_eq split: sum.splits)

lemma condiciones_iniciales_pkg_total:
  "df \<noteq> [] \<Longrightarrow> \<exists>x0 ws. condiciones_iniciales_pkg df p = Inr (x0, ws)"
  by (cases df) (auto simp: condiciones_iniciales_pkg_def Let_def split: prod.splits)

lemma ModeloSuicidio_init_total:
  "\<exists>ms. ModeloSuicidio_init p (map Poblacion_10ymas_P df) (map anio df) = Inr ms"
  by (simp add: ModeloSuicidio_init_def Let_def)

lemma residuos_returns:
  assumes "df \<noteq> []"
  shows "\<exists>r. residuos sv df pb ti tf x = Inr r \<and> length r = length df"
proof -
  obtain th rh be ga where x: "x = (th, rh, be, ga)" by (cases x)
  let ?p = "pb \<lparr> theta := th, rho := rh, beta := be, gamma := ga \<rparr>"
  from condiciones_iniciales_pkg_total [OF assms] obtain x0 ws where
    ci: "condiciones_iniciales_pkg df ?p = Inr (x0, ws)" by blast
  from ModeloSuicidio_init_total obtain ms where
    mi: "ModeloSuicidio_init ?p (map Poblacion_10ymas_P df) (map anio df) = Inr ms" by blast
  show ?thesis
  proof (cases "evaluar_en_puntos sv ms ti tf x0 (map (\<lambda>r. real_of_int (anio r)) df)")
    case (Inl e)
    with x ci mi show ?thesis by (simp add: residuos_def Let_def trial_params_eq)
  next
    case (Inr res)
    obtain Sm Tm Rm where res: "res = (Sm, Tm, Rm)" by (cases res)
    from evaluar_en_puntos_lengths [OF Inr [unfolded res]] have "length Tm = length df" by simp
    with x ci mi Inr res show ?thesis by (simp add: residuos_def Let_def trial_params_eq)
  qed
qed

lemma residuos_failure:
  assumes "condiciones_iniciales_pkg df (pb \<lparr> theta := th, rho := rh, beta := be, gamma := ga \<rparr>)
             = Inr (x0, ws)"
    and "ModeloSuicidio_init (pb \<lparr> theta := th, rho := rh, beta := be, gamma := ga \<rparr>)
            (map Poblacion_10ymas_P df) (map anio df) = Inr ms"
    and "evaluar_en_puntos sv ms ti tf x0 (map (\<lambda>r. real_of_int (anio r)) df) = Inl e"
  shows "residuos sv df pb ti tf (th, rh, be, ga) = Inr (replicate (length df) (10 ^ 10))"
  using assms by (simp add: residuos_def Let_def trial_params_eq map_replicate_const)

text \<open>
  Claim C4.  For a trial vector \<open>(th, rh, be, ga)\<close>, with \<open>p\<close> the trial parameter
  set and \<open>win\<close> the observations of the window: the objective \<open>residuals\<close> of
  core/calibration.py always returns as many entries as \<open>win\<close> has rows, and returns
  \<open>1e6\<close> in each of them when the initial condition solver raises, when the solver
  raises, and when the solver reports a nonzero status or non-success.  The objective
  \<open>residuos\<close> of calibration.py exists only for a table with a first row; there the
  initial condition solver and the model's constructor cannot fail, the objective always
  returns as many entries as the table has rows, and returns \<open>1e10\<close> in each of them
  when \<open>evaluar_en_puntos\<close> raises (the solver raised or reported non-success, by
  \<open>evaluar_en_puntos_failure\<close>).
\<close>

theorem residuals_sentinel_on_failure:
  "p = pb \<lparr> theta := th, rho := rh, beta := be, gamma := ga \<rparr> \<Longrightarrow>
   win = filter (\<lambda>r. a0 \<le> anio r \<and> anio r \<le> a1) df \<Longrightarrow>
   length (residuals sv df pb a0 a1 (th, rh, be, ga)) = length win \<and>
   ((\<exists>e. condiciones_iniciales df p a0 = Inl e) \<longrightarrow>
      residuals sv df pb a0 a1 (th, rh, be, ga) = replicate (length win) (10 ^ 6)) \<and>
   (\<forall>x0. condiciones_iniciales df p a0 = Inr x0 \<and>
      (case sv (rhs (ModeloNoLineal_init p (map anio df) (map Poblacion_10ymas_P df)))
               (real_of_int a0, real_of_int a1) x0 ''RK45''
               (Some (map (\<lambda>r. real_of_int (anio r)) win)) False of
         Inl e \<Rightarrow> True
       | Inr sol \<Rightarrow> sol_status sol \<noteq> 0 \<or> \<not> sol_success sol)
      \<longrightarrow> residuals sv df pb a0 a1 (th, rh, be, ga) = replicate (length win) (10 ^ 6)) \<and>
   (df \<noteq> [] \<longrightarrow>
      (\<exists>r. residuos sv df pb ti tf (th, rh, be, ga) = Inr r \<and> length r = length df) \<and>
      (\<exists>x0 ws ms.
          condiciones_iniciales_pkg df p = Inr (x0, ws) \<and>
          ModeloSuicidio_init p (map Poblacion_10ymas_P df) (map anio df) = Inr ms \<and>
          ((\<exists>e. evaluar_en_puntos sv ms ti tf x0 (map (\<lambda>r. real_of_int (anio r)) df) = Inl e)
             \<longrightarrow> residuos sv df pb ti tf (th, rh, be, ga)
                   = Inr (replicate (length df) (10 ^ 10)))))"
proof -
  assume p: "p = pb \<lparr> theta := th, rho := rh, beta := be, gamma := ga \<rparr>"
    and win: "win = filter (\<lambda>r. a0 \<le> anio r \<and> anio r \<le> a1) df"
  have a: "length (residuals sv df pb a0 a1 (th, rh, be, ga)) = length win"
    using win residuals_length by simp
  have b: "(\<exists>e. condiciones_iniciales df p a0 = Inl e) \<longrightarrow>
      residuals sv df pb a0 a1 (th, rh, be, ga) = replicate (length win) (10 ^ 6)"
    using p win residuals_ci_failure by blast
  have c: "\<forall>x0. condiciones_iniciales df p a0 = Inr x0 \<and>
      (case sv (rhs (ModeloNoLineal_init p (map anio df) (map Poblacion_10ymas_P df)))
               (real_of_int a0, real_of_int a1) x0 ''RK45''
               (Some (map (\<lambda>r. real_of_int (anio r)) win)) False of
         Inl e \<Rightarrow> True
       | Inr sol \<Rightarrow> sol_status sol \<noteq> 0 \<or> \<not> sol_success sol)
      \<longrightarrow> residuals sv df pb a0 a1 (th, rh, be, ga) = replicate (length win) (10 ^ 6)"
    using residuals_solver_failure unfolding p win by blast
  have d: "df \<noteq> [] \<longrightarrow>
      (\<exists>r. residuos sv df pb ti tf (th, rh, be, ga) = Inr r \<and> length r = length df) \<and>
      (\<exists>x0 ws ms.
          condiciones_iniciales_pkg df p = Inr (x0, ws) \<and>
          ModeloSuicidio_init p (map Poblacion_10ymas_P df) (map anio df) = Inr ms \<and>
          ((\<exists>e. evaluar_en_puntos sv ms ti tf x0 (map (\<lambda>r. real_of_int (anio r)) df) = Inl e)
             \<longrightarrow> residuos sv df pb ti tf (th, rh, be, ga)
                   = Inr (replicate (length df) (10 ^ 10))))"
  proof
    assume ne: "df \<noteq> []"
    from condiciones_iniciales_pkg_total [OF ne] obtain x0 ws where
      ci: "condiciones_iniciales_pkg df p = Inr (x0, ws)" by blast
    from ModeloSuicidio_init_total obtain ms where
      mi: "ModeloSuicidio_init p (map Poblacion_10ymas_P df) (map anio df) = Inr ms" by blast
    have "(\<exists>e. evaluar_en_puntos sv ms ti tf x0 (map (\<lambda>r. real_of_int (anio r)) df) = Inl e)
             \<longrightarrow> residuos sv df pb ti tf (th, rh, be, ga)
                   = Inr (replicate (length df) (10 ^ 10))"
      using residuos_failure ci mi unfolding p by blast
    with ci mi residuos_returns [OF ne, of sv pb ti tf "(th, rh, be, ga)"]
    show "(\<exists>r. residuos sv df pb ti tf (th, rh, be, ga) = Inr r \<and> length r = length df) \<and>
      (\<exists>x0 ws ms.
          condiciones_iniciales_pkg df p = Inr (x0, ws) \<and>
          ModeloSuicidio_init p (map Poblacion_10ymas_P df) (map anio df) = Inr ms \<and>
          ((\<exists>e. evaluar_en_puntos sv ms ti tf x0 (map (\<lambda>r. real_of_int (anio r)) df) = Inl e)
             \<longrightarrow> residuos sv df pb ti tf (th, rh, be, ga)
                   = Inr (replicate (length df) (10 ^ 10))))"
      by blast
  qed
  from a b c d show ?thesis by blast
qed

theorem residuals_sentinel_on_failure_witness:
  "residuals (solver_constante True) df_ejemplo params_ejemplo 2009 2011 (1, 1, 1, 1)
     = [10 ^ 6, 10 ^ 6] \<and>
   residuals solver_que_lanza df_ejemplo params_ejemplo 2010 2011 (1, 1, 1, 1)
     = [10 ^ 6, 10 ^ 6] \<and>
   residuos solver_que_lanza df_ejemplo params_ejemplo 2010 2012 (1, 1, 1, 1)
     = Inr [10 ^ 10, 10 ^ 10, 10 ^ 10] \<and>
   length df_ejemplo = 3"
proof -
  note T = residuals_sentinel_on_failure [OF refl refl,
      where df = df_ejemplo and pb = params_ejemplo and th = 1 and rh = 1 and be = 1
        and ga = 1 and ?a0.0 = 2010 and ?a1.0 = 2011 and sv = solver_que_lanza
        and ti = 2010 and tf = 2012]
  note T' = residuals_sentinel_on_failure [OF refl refl,
      where df = df_ejemplo and pb = params_ejemplo and th = 1 and rh = 1 and be = 1
        and ga = 1 and ?a0.0 = 2009 and ?a1.0 = 2011 and sv = "solver_constante True"
        and ti = 2010 and tf = 2012]
  have ne: "df_ejemplo \<noteq> []" by (simp add: df_ejemplo_def)
  have len: "length df_ejemplo = 3" by (simp add: df_ejemplo_def)
  have a: "residuals solver_que_lanza df_ejemplo params_ejemplo 2010 2011 (1, 1, 1, 1)
             = [10 ^ 6, 10 ^ 6]"
    using T condiciones_iniciales_prueba ventana_ejemplo
    by (simp add: solver_que_lanza_def)
  have ci: "condiciones_iniciales df_ejemplo
              (params_ejemplo \<lparr> theta := 1, rho := 1, beta := 1, gamma := 1 \<rparr>) 2009
            = Inl (NoDataForYear 2009)"
    by (simp add: condiciones_iniciales_def df_ejemplo_def)
  have w: "length (filter (\<lambda>r. 2009 \<le> anio r \<and> anio r \<le> 2011) df_ejemplo) = 2"
    by (simp add: df_ejemplo_def)
  have a': "residuals (solver_constante True) df_ejemplo params_ejemplo 2009 2011 (1, 1, 1, 1)
             = [10 ^ 6, 10 ^ 6]"
    using T' ci w by (simp add: numeral_2_eq_2)
  have ev: "\<And>ms x0. evaluar_en_puntos solver_que_lanza ms 2010 2012 x0
                 (map (\<lambda>r. real_of_int (anio r)) df_ejemplo)
               = Inl (LibraryError ''solve_ivp raised'')"
    by (simp add: evaluar_en_puntos_def solver_que_lanza_def)
  have b: "residuos solver_que_lanza df_ejemplo params_ejemplo 2010 2012 (1, 1, 1, 1)
             = Inr [10 ^ 10, 10 ^ 10, 10 ^ 10]"
    using T ne ev len by (auto simp: numeral_3_eq_3)
  show ?thesis using a a' b len by simp
qed

subsection \<open>The calibrated parameter set\<close>

lemma calibrar_parametros_result:
  assumes "calibrar_parametros ls sv df pb a0 a1 nt ng cb = Inr (fp, cost, lg)"
  shows "\<exists>th rh be ga. fp = pb \<lparr> theta := th, rho := rh, beta := be, gamma := ga \<rparr>"
proof -
  let ?call = "ls (\<lambda>p_vec. Inr (residuals sv df pb a0 a1 p_vec))
                  (delta_n pb, 1 / 10, 3 / 10, 10)
                  ([0, 0, 0, 0], [Some 1, Some 1, Some 1, Some 20]) opciones_por_defecto"
  from assms obtain res where r: "?call = Inr res"
    by (cases ?call) (simp_all add: calibrar_parametros_def Let_def)
  obtain b0 b1 b2 b3 where x: "res_x res = (b0, b1, b2, b3)" by (cases "res_x res")
  from assms r x have "fp = pb \<lparr> theta := b0, rho := b1, beta := b2, gamma := b3 \<rparr>"
    by (simp add: calibrar_parametros_def Let_def trial_params_eq)
  then show ?thesis by blast
qed

lemma calibrar_parametros_pkg_result:
  assumes "calibrar_parametros_pkg ls sv df pb metodo vb = Inr (pc, res)"
  shows "\<exists>th rh be ga. res_x res = (th, rh, be, ga) \<and>
           pc = pb \<lparr> theta := th, rho := rh, beta := be, gamma := ga \<rparr>"
proof -
  from assms obtain r rs where df: "df = r # rs"
    by (cases df) (simp_all add: calibrar_parametros_pkg_def Let_def)
  let ?tp = "map (\<lambda>r. real_of_int (anio r)) df"
  let ?call = "ls (residuos sv df pb (hd ?tp) (last ?tp))
                  (theta pb, rho pb, beta pb, gamma pb)
                  ([0, 0, 0, 0], [None, None, Some 1, None])
                  \<lparr> ls_method = metodo, ls_verbose = vb, ls_max_nfev = Some 1000,
                    ls_ftol = 1 / 10 ^ 8, ls_xtol = 1 / 10 ^ 8, ls_gtol = 1 / 10 ^ 8 \<rparr>"
  from assms df obtain resultado where r: "?call = Inr resultado"
    by (cases ?call) (simp_all add: calibrar_parametros_pkg_def Let_def)
  obtain th rh be ga where x: "res_x resultado = (th, rh, be, ga)" by (cases "res_x resultado")
  let ?pc = "pb \<lparr> theta := th, rho := rh, beta := be, gamma := ga \<rparr>"
  from assms df r x have "pc = ?pc \<and> res = resultado"
    by (simp add: calibrar_parametros_pkg_def Let_def trial_params_eq
             split: sum.splits prod.splits)
  with x show ?thesis by blast
qed

text \<open>
  Claim C5.  A parameter set returned by either calibrator has the \<open>delta\<close>,
  \<open>delta_s\<close>, \<open>delta_n\<close>, \<open>m\<close>, \<open>phi\<close> and \<open>psi\<close> of the parameter set it was
  given; in calibration.py the other four fields are the optimizer's \<open>x\<close>.
\<close>

theorem calibration_keeps_fixed_fields:
  "(calibrar_parametros ls sv df pb a0 a1 nt ng cb = Inr (fp, cost, lg) \<longrightarrow>
      delta fp = delta pb \<and> delta_s fp = delta_s pb \<and> delta_n fp = delta_n pb \<and>
      m fp = m pb \<and> phi fp = phi pb \<and> psi fp = psi pb) \<and>
   (calibrar_parametros_pkg ls sv df pb metodo vb = Inr (pc, res) \<longrightarrow>
      delta pc = delta pb \<and> delta_s pc = delta_s pb \<and> delta_n pc = delta_n pb \<and>
      m pc = m pb \<and> phi pc = phi pb \<and> psi pc = psi pb \<and>
      (theta pc, rho pc, beta pc, gamma pc) = res_x res)"
proof (intro conjI impI)
  assume "calibrar_parametros ls sv df pb a0 a1 nt ng cb = Inr (fp, cost, lg)"
  from calibrar_parametros_result [OF this] obtain th rh be ga where
    fp: "fp = pb \<lparr> theta := th, rho := rh, beta := be, gamma := ga \<rparr>" by blast
  show "delta fp = delta pb" "delta_s fp = delta_s pb" "delta_n fp = delta_n pb"
       "m fp = m pb" "phi fp = phi pb" "psi fp = psi pb"
    by (simp_all add: fp)
next
  assume "calibrar_parametros_pkg ls sv df pb metodo vb = Inr (pc, res)"
  from calibrar_parametros_pkg_result [OF this] obtain th rh be ga where
    x: "res_x res = (th, rh, be, ga)" and
    pc: "pc = pb \<lparr> theta := th, rho := rh, beta := be, gamma := ga \<rparr>" by blast
  show "delta pc = delta pb" "delta_s pc = delta_s pb" "delta_n pc = delta_n pb"
       "m pc = m pb" "phi pc = phi pb" "psi pc = psi pb"
       "(theta pc, rho pc, beta pc, gamma pc) = res_x res"
    by (simp_all add: pc x)
qed

theorem calibration_keeps_fixed_fields_witness:
  "calibrar_parametros optimizador_un_paso (solver_constante True) df_ejemplo params_ejemplo
       2010 2012 5 5 None
     = Inr (params_ejemplo \<lparr> theta := 9 / 1000, gamma := 10 \<rparr>, 1000, log_ejemplo) \<and>
   delta (params_ejemplo \<lparr> theta := 9 / 1000, gamma := 10 \<rparr>) = delta params_ejemplo \<and>
   psi (params_ejemplo \<lparr> theta := 9 / 1000, gamma := 10 \<rparr>) = psi params_ejemplo \<and>
   calibrar_parametros_pkg optimizador_un_paso (solver_constante True) df_ejemplo
       params_ejemplo ''trf'' 1
     = Inr (params_ejemplo, resultado_ejemplo) \<and>
   (theta params_ejemplo, rho params_ejemplo, beta params_ejemplo, gamma params_ejemplo)
     = res_x resultado_ejemplo"
  using calibration_keeps_fixed_fields [of optimizador_un_paso "solver_constante True"
          df_ejemplo params_ejemplo 2010 2012 5 5 None
          "params_ejemplo \<lparr> theta := 9 / 1000, gamma := 10 \<rparr>" 1000 log_ejemplo
          "''trf''" 1 params_ejemplo resultado_ejemplo]
        calibrar_parametros_ejemplo calibrar_parametros_pkg_ejemplo
  by simp

text \<open>
  Claim C10.  The result of the window-keyed \<open>calibrar_parametros\<close> is the same for
  any two values of \<open>num_theta\<close> and \<open>num_gamma\<close> (and of the progress callback): the
  starting point, the bounds and the objective do not read them.
\<close>

theorem calibrar_parametros_ignores_mesh_arguments:
  "calibrar_parametros ls sv df pb a0 a1 nt ng cb
     = calibrar_parametros ls sv df pb a0 a1 nt' ng' cb'"
  by (simp add: calibrar_parametros_def)

theorem calibrar_parametros_ignores_mesh_arguments_witness:
  "calibrar_parametros optimizador_un_paso (solver_constante True) df_ejemplo params_ejemplo
       2010 2012 50 2 (Some (\<lambda>_. ()))
     = Inr (params_ejemplo \<lparr> theta := 9 / 1000, gamma := 10 \<rparr>, 1000, log_ejemplo)"
  using calibrar_parametros_ignores_mesh_arguments [of optimizador_un_paso
          "solver_constante True" df_ejemplo params_ejemplo 2010 2012 50 2 "Some (\<lambda>_. ())"
          5 5 None]
        calibrar_parametros_ejemplo
  by simp

end
